theory Spec2Isabelle
  imports Main "HOL-Library.Char_ord" "HOL-Library.List_Lexorder"
begin

section \<open>Go library functions used by the program\<close>

text \<open>
  A Go string is a sequence of bytes; it is modelled by \<open>string\<close>, a list of 8-bit
  characters. The order on strings is the byte-wise lexicographic one, which is the order
  \<open>sort.Strings\<close> uses.
\<close>

abbreviation nl :: char where
  "nl \<equiv> CHR 0x0A"

abbreviation q :: string where
  "q \<equiv> [CHR 0x27]"

text \<open>\<open>strings.Split(s, sep)\<close> for a separator of one byte: the pieces between the
  separators, one more than there are separators (so the empty string gives one empty piece).\<close>

fun strings_Split :: "string \<Rightarrow> char \<Rightarrow> string list" where
  "strings_Split [] sep = [[]]"
| "strings_Split (c # cs) sep =
     (if c = sep then [] # strings_Split cs sep
      else (case strings_Split cs sep of
              [] \<Rightarrow> [[c]]
            | l # ls \<Rightarrow> (c # l) # ls))"

text \<open>\<open>strings.Join(elems, sep)\<close>.\<close>

fun strings_Join :: "string list \<Rightarrow> string \<Rightarrow> string" where
  "strings_Join [] sep = []"
| "strings_Join [x] sep = x"
| "strings_Join (x # y # ys) sep = x @ sep @ strings_Join (y # ys) sep"

definition strings_HasPrefix :: "string \<Rightarrow> string \<Rightarrow> bool" where
  "strings_HasPrefix s pre = (take (length pre) s = pre)"

text \<open>\<open>sort.Strings\<close> sorts in increasing byte-wise order. Equal strings are
  indistinguishable, so the result does not depend on the sorting algorithm.\<close>

definition sort_Strings :: "string list \<Rightarrow> string list" where
  "sort_Strings xs = sort xs"

subsection \<open>Package path\<close>

text \<open>\<open>path.Clean\<close>, by path elements: empty elements and \<open>.\<close> are dropped, \<open>..\<close>
  removes the element before it (at the root it is dropped, at the start of a relative path
  it is kept), and the empty result is \<open>.\<close>.\<close>

definition clean_elem :: "bool \<Rightarrow> string list \<Rightarrow> string \<Rightarrow> string list" where
  "clean_elem rooted out e =
     (if e = [] \<or> e = ''.'' then out
      else if e = ''..'' then
        (if out \<noteq> [] \<and> last out \<noteq> ''..'' then butlast out
         else if rooted then out
         else out @ [e])
      else out @ [e])"

definition path_Clean :: "string \<Rightarrow> string" where
  "path_Clean p =
     (if p = [] then ''.''
      else
        let rooted = (hd p = CHR ''/'');
            out = foldl (clean_elem rooted) [] (strings_Split p (CHR ''/''));
            r = (if rooted then ''/'' else []) @ strings_Join out ''/''
        in if r = [] then ''.'' else r)"

text \<open>\<open>path.Split\<close> cuts after the last slash; \<open>path.Dir\<close> cleans the first part.\<close>

definition path_Split :: "string \<Rightarrow> string \<times> string" where
  "path_Split p =
     (rev (dropWhile (\<lambda>c. c \<noteq> CHR ''/'') (rev p)),
      rev (takeWhile (\<lambda>c. c \<noteq> CHR ''/'') (rev p)))"

definition path_Dir :: "string \<Rightarrow> string" where
  "path_Dir p = path_Clean (fst (path_Split p))"

definition path_Base :: "string \<Rightarrow> string" where
  "path_Base p =
     (if p = [] then ''.''
      else
        let p1 = rev (dropWhile (\<lambda>c. c = CHR ''/'') (rev p));
            p2 = snd (path_Split p1)
        in if p2 = [] then ''/'' else p2)"

text \<open>\<open>path.Join\<close> of a directory and a name.\<close>

definition path_Join :: "string \<Rightarrow> string \<Rightarrow> string" where
  "path_Join a b =
     (if a = [] \<and> b = [] then []
      else if a = [] then path_Clean b
      else path_Clean (a @ ''/'' @ b))"

section \<open>The process and its environment\<close>

text \<open>
  A file system is a map from path names to nodes. A regular file has its content, its
  permission mode and its owner and group; of a directory only its existence is recorded.
  Path names are compared as strings (no links, no second name for a node), and the
  directory hierarchy is not tracked beyond the directory \<open>os.MkdirAll\<close> is asked for.
\<close>

datatype node = File string int int int | Dir

datatype syscall =
    SysOpen string
  | SysStat string
  | SysReadFile string
  | SysMkdirAll string int
  | SysWriteFile string string int
  | SysChown string int int
  | SysRename string string
  | SysRemove string
  | SysExec string

text \<open>A message: the format string and the arguments of \<open>fmt.Sprintf\<close> or
  \<open>fmt.Printf\<close>, or the arguments of \<open>log.Print\<close> or \<open>fmt.Println\<close>. An argument is
  a string, an integer (\<open>%d\<close>), a boolean (\<open>%t\<close>, \<open>strconv.FormatBool\<close>) or an integer
  with the base \<open>strconv.FormatInt\<close> writes it in.\<close>

datatype fmtarg = S string | D int | T bool | FormatInt int nat

datatype message = Sprintf string "fmtarg list" | Print "fmtarg list" | Println "fmtarg list"

text \<open>
  The state of a run: the file system, the calls that change the file system or start a
  command, in the order they were issued (whether they succeeded or not), the log and the
  standard output.
\<close>

record world =
  files :: "string \<Rightarrow> node option"
  trace :: "syscall list"
  logs :: "(message \<times> string) list"
  stdout :: "message list"

text \<open>
  What the program does not decide: which calls the kernel refuses for reasons outside the
  file map (permissions, a missing parent directory, a full disk), the mode a newly created
  file gets for a requested mode (the request filtered by the umask), the user and group of
  the process, and the functions of the repository that are not under \<open>src/\<close>, taken as
  parameters: \<open>GetOwnerID\<close>, \<open>GetGroupID\<close>, \<open>ComputeChecksum\<close>, and the key/value client
  \<open>KeyDataPath\<close>, \<open>KeyChecksumPath\<close>, \<open>Get\<close> of package kvexpress.
\<close>

record env =
  refuses :: "syscall \<Rightarrow> bool"
  create_mode :: "int \<Rightarrow> int"
  euid :: int
  egid :: int
  GetOwnerID :: "string \<Rightarrow> int"
  GetGroupID :: "string \<Rightarrow> int"
  ComputeChecksum :: "string \<Rightarrow> string"
  KeyDataPath :: "string \<Rightarrow> string \<Rightarrow> string"
  KeyChecksumPath :: "string \<Rightarrow> string \<Rightarrow> string"
  Get :: "string \<Rightarrow> string \<Rightarrow> string \<Rightarrow> string"

text \<open>The package-level variables set from the command line.\<close>

record flags =
  FiletoLock :: string
  LockReason :: string
  FilePermissions :: int
  Owner :: string
  KeyOutLocation :: string
  FiletoWrite :: string
  MinFileLength :: int
  PostExec :: string
  PrefixLocation :: string
  ConsulServer :: string
  Token :: string

text \<open>A function returns, or the process ends in it: by \<open>os.Exit\<close> with a status, or in
  \<open>StatsdPanic\<close>.\<close>

datatype 'a outcome = Returned 'a world | Exited int world | Panicked world

fun final :: "'a outcome \<Rightarrow> world" where
  "final (Returned x w) = w"
| "final (Exited c w) = w"
| "final (Panicked w) = w"

fun returned :: "'a outcome \<Rightarrow> bool" where
  "returned (Returned x w) = True"
| "returned (Exited c w) = False"
| "returned (Panicked w) = False"

fun exited :: "'a outcome \<Rightarrow> int option" where
  "exited (Returned x w) = None"
| "exited (Exited c w) = Some c"
| "exited (Panicked w) = None"

subsection \<open>Operating system calls\<close>

definition issue :: "syscall \<Rightarrow> world \<Rightarrow> world" where
  "issue c w = w\<lparr>trace := trace w @ [c]\<rparr>"

text \<open>\<open>os.Open\<close> followed by \<open>Stat\<close> on the opened file, and \<open>os.Stat\<close>: the node at the
  path, or \<open>None\<close> for an error. (\<open>Stat\<close> on the nil file of a failed \<open>os.Open\<close> is an
  error too.)\<close>

definition os_Open :: "env \<Rightarrow> string \<Rightarrow> world \<Rightarrow> node option" where
  "os_Open k p w = (if refuses k (SysOpen p) then None else files w p)"

definition os_Stat :: "env \<Rightarrow> string \<Rightarrow> world \<Rightarrow> node option" where
  "os_Stat k p w = (if refuses k (SysStat p) then None else files w p)"

text \<open>\<open>ioutil.ReadFile\<close>: the content of a regular file, \<open>None\<close> for an error.\<close>

definition ioutil_ReadFile :: "env \<Rightarrow> string \<Rightarrow> world \<Rightarrow> string option" where
  "ioutil_ReadFile k p w =
     (if refuses k (SysReadFile p) then None
      else (case files w p of
              Some (File c m u g) \<Rightarrow> Some c
            | Some Dir \<Rightarrow> None
            | None \<Rightarrow> None))"

text \<open>\<open>os.MkdirAll\<close>: nothing to do for a directory, an error for a regular file.\<close>

definition os_MkdirAll :: "env \<Rightarrow> string \<Rightarrow> int \<Rightarrow> world \<Rightarrow> bool \<times> world" where
  "os_MkdirAll k d perm w =
     (let w1 = issue (SysMkdirAll d perm) w in
      if refuses k (SysMkdirAll d perm) then (False, w1)
      else (case files w d of
              Some Dir \<Rightarrow> (True, w1)
            | Some (File c m u g) \<Rightarrow> (False, w1)
            | None \<Rightarrow> (True, w1\<lparr>files := (files w)(d \<mapsto> Dir)\<rparr>)))"

text \<open>\<open>ioutil.WriteFile\<close>: a file that does not exist is created with the requested
  permissions (before umask) and the user and group of the process; an existing file is
  truncated and written without changing its permissions or owner.\<close>

definition ioutil_WriteFile :: "env \<Rightarrow> string \<Rightarrow> string \<Rightarrow> int \<Rightarrow> world \<Rightarrow> bool \<times> world" where
  "ioutil_WriteFile k p data perm w =
     (let w1 = issue (SysWriteFile p data perm) w in
      if refuses k (SysWriteFile p data perm) then (False, w1)
      else (case files w p of
              Some Dir \<Rightarrow> (False, w1)
            | Some (File c m u g) \<Rightarrow> (True, w1\<lparr>files := (files w)(p \<mapsto> File data m u g)\<rparr>)
            | None \<Rightarrow>
                (True, w1\<lparr>files := (files w)(p \<mapsto> File data (create_mode k perm) (euid k) (egid k))\<rparr>)))"

definition os_Chown :: "env \<Rightarrow> string \<Rightarrow> int \<Rightarrow> int \<Rightarrow> world \<Rightarrow> bool \<times> world" where
  "os_Chown k p oid gid w =
     (let w1 = issue (SysChown p oid gid) w in
      if refuses k (SysChown p oid gid) then (False, w1)
      else (case files w p of
              Some (File c m u g) \<Rightarrow> (True, w1\<lparr>files := (files w)(p \<mapsto> File c m oid gid)\<rparr>)
            | Some Dir \<Rightarrow> (True, w1)
            | None \<Rightarrow> (False, w1)))"

text \<open>\<open>os.Rename\<close>: a regular file replaces a regular file or takes a free name, and
  cannot replace a directory; a directory can only take a free name here.\<close>

definition os_Rename :: "env \<Rightarrow> string \<Rightarrow> string \<Rightarrow> world \<Rightarrow> bool \<times> world" where
  "os_Rename k old new w =
     (let w1 = issue (SysRename old new) w in
      if refuses k (SysRename old new) then (False, w1)
      else (case files w old of
              None \<Rightarrow> (False, w1)
            | Some (File c m u g) \<Rightarrow>
                (if files w new = Some Dir then (False, w1)
                 else (True, w1\<lparr>files := ((files w)(old := None))(new \<mapsto> File c m u g)\<rparr>))
            | Some Dir \<Rightarrow>
                (if files w new = None
                 then (True, w1\<lparr>files := ((files w)(old := None))(new \<mapsto> Dir)\<rparr>)
                 else (False, w1))))"


subsection \<open>Logging and output\<close>

text \<open>Modelled from the spec: \<open>Log\<close> is not under \<open>src/\<close>; process logging is an I/O
  wrapper outside the core, so it is modelled as adding the message and its priority to the
  log, with no effect on the file system.\<close>

definition Log :: "message \<Rightarrow> string \<Rightarrow> world \<Rightarrow> world" where
  "Log msg priority w = w\<lparr>logs := logs w @ [(msg, priority)]\<rparr>"

text \<open>\<open>log.Print\<close> of the standard library writes to the same log.\<close>

definition log_Print :: "message \<Rightarrow> world \<Rightarrow> world" where
  "log_Print msg w = w\<lparr>logs := logs w @ [(msg, ''print'')]\<rparr>"

definition fmt_Printf :: "message \<Rightarrow> world \<Rightarrow> world" where
  "fmt_Printf msg w = w\<lparr>stdout := stdout w @ [msg]\<rparr>"

text \<open>Modelled from the spec: \<open>StatsdPanic\<close> is not under \<open>src/\<close>; it is the emission on
  a fatal path, and a fatal condition terminates the apply attempt immediately, at the
  failing call.\<close>

definition StatsdPanic :: "string \<Rightarrow> string \<Rightarrow> world \<Rightarrow> 'a outcome" where
  "StatsdPanic key location w = Panicked w"

section \<open>commands/files.go\<close>

definition fileSuffix :: string where
  "fileSuffix = ''kvexpress''"

text \<open>\<open>ReadFile\<close>: the content of the file, the empty string when reading fails.\<close>

definition ReadFile :: "env \<Rightarrow> string \<Rightarrow> world \<Rightarrow> string" where
  "ReadFile k filepath w =
     (case ioutil_ReadFile k filepath w of
        None \<Rightarrow> []
      | Some dat \<Rightarrow> dat)"

text \<open>The loop of \<open>BlankLineStrip\<close>, with the slice \<open>stripped\<close> built so far.\<close>

fun strip_loop :: "string list \<Rightarrow> string list \<Rightarrow> string list" where
  "strip_loop [] stripped = stripped"
| "strip_loop (str # data) stripped =
     strip_loop data (if str \<noteq> [] then stripped @ [str] else stripped)"

definition BlankLineStrip :: "string list \<Rightarrow> world \<Rightarrow> string list \<times> world" where
  "BlankLineStrip data w =
     (strip_loop data [],
      Log (Sprintf (''in: stripping_blank_lines='true'' @ q) []) ''debug'' w)"

definition SortFile :: "string \<Rightarrow> world \<Rightarrow> string \<times> world" where
  "SortFile file w =
     (let w1 = Log (Sprintf (''sorting='true'' @ q) []) ''debug'' w;
          lines = strings_Split file nl
      in case BlankLineStrip lines w1 of
           (lines, w2) \<Rightarrow> (strings_Join (sort_Strings lines) [nl], w2))"

definition CheckFullPath :: "env \<Rightarrow> string \<Rightarrow> world \<Rightarrow> unit outcome" where
  "CheckFullPath k file w =
     (let targetDirectory = path_Dir file in
      case os_MkdirAll k targetDirectory 493 w of
        (ok, w1) \<Rightarrow>
          if \<not> ok then
            StatsdPanic targetDirectory ''create_directory''
              (fmt_Printf (Sprintf ''Panic: Could not create directories: '%s'\<newline>'' [S targetDirectory])
                (Log (Sprintf (''function='CheckFullPath' panic='true' file='%s'' @ q) [S targetDirectory])
                   ''info'' w1))
          else Returned () w1)"

definition ChownFile :: "env \<Rightarrow> string \<Rightarrow> string \<Rightarrow> world \<Rightarrow> (bool \<times> int \<times> int) outcome" where
  "ChownFile k filepath owner w =
     (let oid = GetOwnerID k owner;
          gid = GetGroupID k owner
      in case os_Chown k filepath oid gid w of
           (ok, w1) \<Rightarrow>
             if \<not> ok then
               StatsdPanic filepath ''chown_file''
                 (fmt_Printf (Sprintf ''Panic: Could not chown file: '%s'\<newline>'' [S filepath]) w1)
             else Returned (True, oid, gid) w1)"

definition WriteFile :: "env \<Rightarrow> string \<Rightarrow> string \<Rightarrow> int \<Rightarrow> string \<Rightarrow> world \<Rightarrow> unit outcome" where
  "WriteFile k data filepath perms owner w =
     (case CheckFullPath k filepath w of
        Exited c w' \<Rightarrow> Exited c w'
      | Panicked w' \<Rightarrow> Panicked w'
      | Returned u w1 \<Rightarrow>
          (let tmpFilepath = filepath @ ''.'' @ fileSuffix in
           case ioutil_WriteFile k tmpFilepath data perms w1 of
             (ok, w2) \<Rightarrow>
               if \<not> ok then
                 StatsdPanic filepath ''write_file''
                   (fmt_Printf (Sprintf ''Panic: Could not write file: '%s'\<newline>'' [S filepath])
                     (Log (Sprintf (''function='WriteFile' panic='true' file='%s'' @ q) [S filepath])
                        ''info'' w2))
               else
                 (case ChownFile k tmpFilepath owner w2 of
                    Exited c w' \<Rightarrow> Exited c w'
                  | Panicked w' \<Rightarrow> Panicked w'
                  | Returned (fileChown, oid, gid) w3 \<Rightarrow>
                      (case os_Rename k tmpFilepath filepath w3 of
                         (ok, w4) \<Rightarrow>
                           if \<not> ok then
                             StatsdPanic filepath ''rename_file''
                               (fmt_Printf
                                  (Sprintf ''Panic: Could not rename file: '%s'\<newline>'' [S filepath])
                                  (Log (Sprintf (''function='Rename' panic='true' file='%s'' @ q)
                                          [S filepath]) ''info'' w4))
                           else
                             Returned ()
                               (Log (Sprintf
                                       (''file_chown='%t' location='%s' owner='%d' group='%d'' @ q)
                                       [T fileChown, S filepath, D oid, D gid]) ''debug''
                                 (Log (Sprintf
                                         (''file_wrote='true' location='%s' permissions='%s'' @ q)
                                         [S filepath, FormatInt perms 8]) ''debug'' w4))))))"

definition CheckFiletoWrite :: "env \<Rightarrow> string \<Rightarrow> string \<Rightarrow> world \<Rightarrow> unit outcome" where
  "CheckFiletoWrite k filename checksum w =
     (case os_Open k filename w of
        None \<Rightarrow> Returned () (Log (Sprintf ''there is NO file at %s'' [S filename]) ''debug'' w)
      | Some Dir \<Rightarrow>
          Exited 1 (Log (Sprintf ''Can NOT write a directory %s'' [S filename]) ''info'' w)
      | Some (File c m u g) \<Rightarrow>
          (case (case ioutil_ReadFile k filename w of
                   None \<Rightarrow>
                     ([], Log (Sprintf (''CheckFiletoWrite(): Error reading file: '%s'' @ q)
                                 [S filename]) ''info'' w)
                 | Some dat \<Rightarrow> (dat, w)) of
             (data, w1) \<Rightarrow>
               (let computedChecksum = ComputeChecksum k data in
                if computedChecksum = checksum then
                  Exited 0 (Log (Sprintf (q @ ''%s' has the same checksum. Stopping.'') [S filename])
                              ''info'' w1)
                else Returned () w1)))"


definition LastFilename :: "string \<Rightarrow> world \<Rightarrow> string \<times> world" where
  "LastFilename file w =
     (let last = path_Base file @ ''.last'';
          fullPath = path_Join (path_Dir file) last
      in (fullPath, Log (Sprintf (''file='last' fullPath='%s'' @ q) [S fullPath]) ''debug'' w))"

definition CheckLastFile :: "env \<Rightarrow> string \<Rightarrow> int \<Rightarrow> string \<Rightarrow> world \<Rightarrow> unit outcome" where
  "CheckLastFile k file perms owner w =
     (case os_Stat k file w of
        None \<Rightarrow>
          WriteFile k ''This is a blank file.\<newline>'' file perms owner
            (Log (Sprintf (''file='last' file='%s' does_not_exist='true'' @ q) [S file]) ''debug'' w)
      | Some n \<Rightarrow> Returned () w)"

definition LockFilePath :: "string \<Rightarrow> string" where
  "LockFilePath file = file @ ''.locked''"




definition CheckFullFilename :: "string \<Rightarrow> world \<Rightarrow> unit outcome" where
  "CheckFullFilename file w =
     (if \<not> strings_HasPrefix file ''/'' then
        Exited 1 (fmt_Printf (Println [S ''Please supply a complete file path.'']) w)
      else Returned () w)"

section \<open>The out command\<close>

text \<open>Modelled from the spec: \<open>LengthCheck\<close> of package kvexpress is not under \<open>src/\<close>;
  content is rejected if \<open>len(content) < minLength\<close>.\<close>

definition LengthCheck :: "string \<Rightarrow> int \<Rightarrow> bool" where
  "LengthCheck data min_length = (\<not> int (length data) < min_length)"

text \<open>Modelled from the spec: \<open>ChecksumCompare\<close> of package kvexpress is not under
  \<open>src/\<close>; it is \<open>Matches(content, expectedDigest)\<close>, the equality of the digest of the
  content with the expected digest.\<close>

definition ChecksumCompare :: "env \<Rightarrow> string \<Rightarrow> string \<Rightarrow> bool" where
  "ChecksumCompare k data checksum = (ComputeChecksum k data = checksum)"

text \<open>Modelled from the spec: \<open>kvexpress.WriteFile(data, file, perms)\<close> is not under
  \<open>src/\<close>; it is the atomic file writer, which is \<open>WriteFile\<close> of \<open>commands/files.go\<close>; the
  owner is the configured one.\<close>

definition kvexpress_WriteFile :: "env \<Rightarrow> flags \<Rightarrow> string \<Rightarrow> string \<Rightarrow> int \<Rightarrow> world \<Rightarrow> unit outcome" where
  "kvexpress_WriteFile k c data file perms w = WriteFile k data file perms (Owner c) w"

text \<open>Modelled from the spec: \<open>RunCommand\<close> of package kvexpress is not under \<open>src/\<close>; the
  command string is executed with no arguments, and its exit status is only logged. What the
  command itself does to the file system is not part of the model.\<close>

definition RunCommand :: "string \<Rightarrow> world \<Rightarrow> world" where
  "RunCommand cmd w = issue (SysExec cmd) w"

definition checkOutFlags :: "flags \<Rightarrow> world \<Rightarrow> unit outcome" where
  "checkOutFlags c w =
     (let w1 = log_Print (Print [S ''out: Checking cli flags.'']) w in
      if KeyOutLocation c = [] then
        Exited 1 (fmt_Printf (Println [S ''Need a key location in -k'']) w1)
      else if FiletoWrite c = [] then
        Exited 1 (fmt_Printf (Println [S ''Need a file to write in -f'']) w1)
      else Returned () (log_Print (Print [S ''out: Required cli flags present.'']) w1))"

definition outRun :: "env \<Rightarrow> flags \<Rightarrow> world \<Rightarrow> unit outcome" where
  "outRun k c w =
     (case checkOutFlags c w of
        Exited s w' \<Rightarrow> Exited s w'
      | Panicked w' \<Rightarrow> Panicked w'
      | Returned u w1 \<Rightarrow>
          (let key_data = KeyDataPath k (KeyOutLocation c) (PrefixLocation c);
               key_checksum = KeyChecksumPath k (KeyOutLocation c) (PrefixLocation c);
               KVData = Get k key_data (ConsulServer c) (Token c);
               Checksum = Get k key_checksum (ConsulServer c) (Token c);
               longEnough = LengthCheck KVData (MinFileLength c);
               w2 = log_Print (Print [S (''out: longEnough='' @ q), T longEnough, S q]) w1;
               checksumMatch = ChecksumCompare k KVData Checksum;
               w3 = log_Print (Print [S (''out: checksumMatch='' @ q), T checksumMatch, S q]) w2
           in case (if longEnough \<and> checksumMatch
                    then kvexpress_WriteFile k c KVData (FiletoWrite c) (FilePermissions c) w3
                    else Returned () (log_Print (Print [S ''Could not write file.'']) w3)) of
                Exited s w' \<Rightarrow> Exited s w'
              | Panicked w' \<Rightarrow> Panicked w'
              | Returned u w4 \<Rightarrow>
                  if PostExec c \<noteq> [] then
                    Returned ()
                      (RunCommand (PostExec c)
                         (log_Print (Print [S (''out: exec='' @ q), S (PostExec c), S q]) w4))
                  else Returned () w4))"

section \<open>A concrete environment\<close>

text \<open>An environment in which the kernel refuses nothing and the umask is zero, the process
  runs as user and group 0, \<open>deploy\<close> is user 1000 in group 1000, the digest of a content is
  the content behind the prefix \<open>sum:\<close>, and the store holds \<open>configuration=1\<close> under the data
  key and its digest under the checksum key.\<close>

definition env0 :: env where
  "env0 =
     \<lparr>refuses = (\<lambda>c. False),
      create_mode = (\<lambda>m. m),
      euid = 0,
      egid = 0,
      GetOwnerID = (\<lambda>name. if name = ''deploy'' then 1000 else 0),
      GetGroupID = (\<lambda>name. if name = ''deploy'' then 1000 else 0),
      ComputeChecksum = (\<lambda>d. ''sum:'' @ d),
      KeyDataPath = (\<lambda>key prefix. prefix @ ''/'' @ key @ ''/data''),
      KeyChecksumPath = (\<lambda>key prefix. prefix @ ''/'' @ key @ ''/checksum''),
      Get = (\<lambda>key server token.
               if key = ''kvexpress/hosts/data'' then ''configuration=1''
               else if key = ''kvexpress/hosts/checksum'' then ''sum:configuration=1''
               else [])\<rparr>"

text \<open>A file system with the directory \<open>/etc\<close> only, and nothing done yet.\<close>

definition world0 :: world where
  "world0 =
     \<lparr>files = (\<lambda>p. if p = ''/etc'' then Some Dir else None),
      trace = [],
      logs = [],
      stdout = []\<rparr>"

text \<open>The variables as \<open>kvexpress out -k hosts -f /etc/hosts.conf -l 10\<close> sets them, with
  the file and the reason of \<open>kvexpress lock\<close>.\<close>

definition flags0 :: flags where
  "flags0 =
     \<lparr>FiletoLock = ''/etc/hosts.conf'',
      LockReason = ''maintenance'',
      FilePermissions = 416,
      Owner = ''deploy'',
      KeyOutLocation = ''hosts'',
      FiletoWrite = ''/etc/hosts.conf'',
      MinFileLength = 10,
      PostExec = [],
      PrefixLocation = ''kvexpress'',
      ConsulServer = ''localhost:8500'',
      Token = []\<rparr>"

text \<open>The same file system with a staging file left behind by an earlier run that was made
  with mode 0600 (384).\<close>

definition world_stale :: world where
  "world_stale =
     \<lparr>files = (\<lambda>p. if p = ''/etc'' then Some Dir
                   else if p = ''/etc/hosts.conf.kvexpress'' then Some (File ''conf'' 384 0 0)
                   else None),
      trace = [],
      logs = [],
      stdout = []\<rparr>"

text \<open>A file system in which the target exists and is locked.\<close>

definition world_locked :: world where
  "world_locked =
     \<lparr>files = (\<lambda>p. if p = ''/etc'' then Some Dir
                   else if p = ''/etc/hosts.conf'' then Some (File ''configuration=0'' 416 1000 1000)
                   else if p = ''/etc/hosts.conf.locked'' then Some (File ''locked'' 416 1000 1000)
                   else None),
      trace = [],
      logs = [],
      stdout = []\<rparr>"

text \<open>The flags with a minimum length the stored content does not reach, and a command to
  run after the file is written.\<close>

definition flags_short :: flags where
  "flags_short = flags0\<lparr>MinFileLength := 100, PostExec := ''/usr/local/bin/reload''\<rparr>"

text \<open>The flags with a relative path for the file to write.\<close>

definition flags_relative :: flags where
  "flags_relative = flags0\<lparr>FiletoWrite := ''hosts.conf''\<rparr>"


text \<open>A content of eleven lines and 44 bytes, and the environment whose store holds it with
  its digest.\<close>

definition hosts11 :: string where
  "hosts11 = ''h01\<newline>h02\<newline>h03\<newline>h04\<newline>h05\<newline>h06\<newline>h07\<newline>h08\<newline>h09\<newline>h10\<newline>h11\<newline>''"

definition env_lines :: env where
  "env_lines =
     env0\<lparr>Get := (\<lambda>key server token.
               if key = ''kvexpress/hosts/data'' then hosts11
               else if key = ''kvexpress/hosts/checksum'' then ''sum:'' @ hosts11
               else [])\<rparr>"



section \<open>Lines: splitting, stripping, sorting, joining\<close>

lemma strip_loop_filter: "strip_loop data acc = acc @ filter (\<lambda>s. s \<noteq> []) data"
  by (induction data arbitrary: acc) auto

lemma strings_Split_no_sep: "l \<in> set (strings_Split s sep) \<Longrightarrow> sep \<notin> set l"
proof (induction s arbitrary: l)
  case Nil
  then show ?case by simp
next
  case (Cons c cs)
  then show ?case
    by (cases "strings_Split cs sep") (auto split: if_splits)
qed

lemma strings_Split_plain: "sep \<notin> set x \<Longrightarrow> strings_Split x sep = [x]"
  by (induction x) auto

lemma strings_Split_append:
  "sep \<notin> set x \<Longrightarrow> strings_Split (x @ sep # rest) sep = x # strings_Split rest sep"
  by (induction x) auto

lemma strings_Split_Join:
  "ls \<noteq> [] \<Longrightarrow> \<forall>l \<in> set ls. sep \<notin> set l \<Longrightarrow> strings_Split (strings_Join ls [sep]) sep = ls"
proof (induction ls "[sep]" rule: strings_Join.induct)
  case 1
  then show ?case by simp
next
  case (2 x)
  then show ?case by (simp add: strings_Split_plain)
next
  case (3 x y ys)
  then show ?case by (simp add: strings_Split_append)
qed

lemma strings_Join_empty:
  "\<forall>l \<in> set ls. l \<noteq> [] \<Longrightarrow> (strings_Join ls sep = []) = (ls = [])"
  by (induction ls sep rule: strings_Join.induct) auto

lemma SortFile_value:
  "fst (SortFile s w) = strings_Join (sort (filter (\<lambda>l. l \<noteq> []) (strings_Split s nl))) [nl]"
  by (simp add: SortFile_def BlankLineStrip_def sort_Strings_def strip_loop_filter)

lemma lines_round_trip:
  assumes "\<forall>l \<in> set ls. l \<noteq> [] \<and> nl \<notin> set l"
  shows "filter (\<lambda>l. l \<noteq> []) (strings_Split (strings_Join ls [nl]) nl) = ls"
proof (cases "ls = []")
  case True
  then show ?thesis by simp
next
  case False
  with assms have "strings_Split (strings_Join ls [nl]) nl = ls"
    by (simp add: strings_Split_Join)
  with assms show ?thesis by (simp add: filter_id_conv)
qed

lemma blank_line_iff:
  assumes "\<forall>l \<in> set ls. l \<noteq> [] \<and> sep \<notin> set l"
  shows "([] \<in> set (strings_Split (strings_Join ls [sep]) sep)) = (strings_Join ls [sep] = [])"
proof (cases "ls = []")
  case True
  then show ?thesis by simp
next
  case False
  from assms have ne: "\<forall>l \<in> set ls. l \<noteq> []" by blast
  from assms have ns: "\<forall>l \<in> set ls. sep \<notin> set l" by blast
  have a: "strings_Split (strings_Join ls [sep]) sep = ls"
    using False ns by (rule strings_Split_Join)
  have b: "strings_Join ls [sep] \<noteq> []"
    using ne False by (simp add: strings_Join_empty)
  have c: "[] \<notin> set ls" using ne by blast
  show ?thesis unfolding a using b c by simp
qed

lemma sorted_lines_good:
  "\<forall>l \<in> set (sort (filter (\<lambda>l. l \<noteq> []) (strings_Split s nl))). l \<noteq> [] \<and> nl \<notin> set l"
proof
  fix l
  assume "l \<in> set (sort (filter (\<lambda>l. l \<noteq> []) (strings_Split s nl)))"
  then have "l \<in> set (strings_Split s nl)" and "l \<noteq> []"
    by simp_all
  then show "l \<noteq> [] \<and> nl \<notin> set l"
    by (simp add: strings_Split_no_sep)
qed

lemma SortFile_idem: "fst (SortFile (fst (SortFile s w)) w') = fst (SortFile s w)"
proof -
  let ?ls = "sort (filter (\<lambda>l. l \<noteq> []) (strings_Split s nl))"
  have rt: "filter (\<lambda>l. l \<noteq> []) (strings_Split (strings_Join ?ls [nl]) nl) = ?ls"
    using sorted_lines_good by (rule lines_round_trip)
  have "fst (SortFile (strings_Join ?ls [nl]) w') = strings_Join (sort ?ls) [nl]"
    by (simp only: SortFile_value rt)
  also have "sort ?ls = ?ls"
    by (simp add: sort_key_id_if_sorted)
  finally show ?thesis by (simp only: SortFile_value)
qed

text \<open>
  C10. For every input string, \<open>SortFile\<close> returns the lines of the input (the pieces
  between newlines) without the empty ones, in increasing order, joined by a newline. Its
  result has an empty line only when it is the empty string, and sorting it again returns it
  unchanged.
\<close>

theorem SortFile_sorted_stripped_idempotent:
  "fst (SortFile s w) = strings_Join (sort (filter (\<lambda>l. l \<noteq> []) (strings_Split s nl))) [nl]
   \<and> ([] \<in> set (strings_Split (fst (SortFile s w)) nl)) = (fst (SortFile s w) = [])
   \<and> fst (SortFile (fst (SortFile s w)) w') = fst (SortFile s w)"
proof (intro conjI)
  show "fst (SortFile s w) = strings_Join (sort (filter (\<lambda>l. l \<noteq> []) (strings_Split s nl))) [nl]"
    by (rule SortFile_value)
  show "([] \<in> set (strings_Split (fst (SortFile s w)) nl)) = (fst (SortFile s w) = [])"
    unfolding SortFile_value using sorted_lines_good by (rule blank_line_iff)
  show "fst (SortFile (fst (SortFile s w)) w') = fst (SortFile s w)"
    by (rule SortFile_idem)
qed

text \<open>The theorem for three lines, the second one empty, and a newline at the end.\<close>

theorem SortFile_sorted_stripped_idempotent_witness:
  "fst (SortFile ''b\<newline>\<newline>a\<newline>'' world0) = ''a\<newline>b''
   \<and> [] \<notin> set (strings_Split (fst (SortFile ''b\<newline>\<newline>a\<newline>'' world0)) nl)
   \<and> fst (SortFile (fst (SortFile ''b\<newline>\<newline>a\<newline>'' world0)) world0) = ''a\<newline>b''"
proof -
  have v: "fst (SortFile ''b\<newline>\<newline>a\<newline>'' world0) = ''a\<newline>b''"
    by (simp add: SortFile_def BlankLineStrip_def sort_Strings_def)
  from SortFile_sorted_stripped_idempotent[of "''b\<newline>\<newline>a\<newline>''" world0 world0] v
  show ?thesis by simp
qed

section \<open>The calls of WriteFile\<close>

lemma staging_neq_target: "filepath @ ''.'' @ fileSuffix \<noteq> filepath"
  by (simp add: fileSuffix_def)

lemma os_MkdirAll_trace: "os_MkdirAll k d perm w = (ok, w1) \<Longrightarrow> trace w1 = trace w @ [SysMkdirAll d perm]"
  by (auto simp: os_MkdirAll_def issue_def Let_def split: if_splits option.splits node.splits)

lemma os_MkdirAll_files:
  "os_MkdirAll k d perm w = (ok, w1) \<Longrightarrow>
     files w1 = (if ok \<and> files w d = None then (files w)(d \<mapsto> Dir) else files w)"
  by (auto simp: os_MkdirAll_def issue_def Let_def split: if_splits option.splits node.splits)

lemma os_MkdirAll_ok:
  "os_MkdirAll k d perm w = (True, w1) \<Longrightarrow> files w1 d = Some Dir"
  by (auto simp: os_MkdirAll_def issue_def Let_def split: if_splits option.splits node.splits)

lemma ioutil_WriteFile_trace:
  "ioutil_WriteFile k p data perm w = (ok, w1) \<Longrightarrow> trace w1 = trace w @ [SysWriteFile p data perm]"
  by (auto simp: ioutil_WriteFile_def issue_def Let_def split: if_splits option.splits node.splits)

lemma ioutil_WriteFile_ok:
  "ioutil_WriteFile k p data perm w = (True, w1) \<Longrightarrow>
     files w p \<noteq> Some Dir \<and>
     files w1 = (files w)(p \<mapsto>
       (case files w p of
          Some (File c m u g) \<Rightarrow> File data m u g
        | _ \<Rightarrow> File data (create_mode k perm) (euid k) (egid k)))"
  by (auto simp: ioutil_WriteFile_def issue_def Let_def split: if_splits option.splits node.splits)

lemma os_Chown_trace:
  "os_Chown k p oid gid w = (ok, w1) \<Longrightarrow> trace w1 = trace w @ [SysChown p oid gid]"
  by (auto simp: os_Chown_def issue_def Let_def split: if_splits option.splits node.splits)

lemma os_Chown_ok:
  "os_Chown k p oid gid w = (True, w1) \<Longrightarrow> files w p = Some (File c m u g) \<Longrightarrow>
     files w1 = (files w)(p \<mapsto> File c m oid gid)"
  by (auto simp: os_Chown_def issue_def Let_def split: if_splits option.splits node.splits)

lemma os_Rename_trace:
  "os_Rename k old new w = (ok, w1) \<Longrightarrow> trace w1 = trace w @ [SysRename old new]"
  by (auto simp: os_Rename_def issue_def Let_def split: if_splits option.splits node.splits)

lemma os_Rename_fail:
  "os_Rename k old new w = (False, w1) \<Longrightarrow> files w1 = files w"
  by (auto simp: os_Rename_def issue_def Let_def split: if_splits option.splits node.splits)

lemma os_Rename_ok:
  "os_Rename k old new w = (True, w1) \<Longrightarrow> files w old = Some (File c m u g) \<Longrightarrow>
     files w new \<noteq> Some Dir \<and> files w1 = ((files w)(old := None))(new \<mapsto> File c m u g)"
  by (auto simp: os_Rename_def issue_def Let_def split: if_splits option.splits node.splits)

lemma Log_fields [simp]:
  "files (Log msg pr w) = files w" "trace (Log msg pr w) = trace w"
  "stdout (Log msg pr w) = stdout w" "logs (Log msg pr w) = logs w @ [(msg, pr)]"
  by (simp_all add: Log_def)

lemma log_Print_fields [simp]:
  "files (log_Print msg w) = files w" "trace (log_Print msg w) = trace w"
  "stdout (log_Print msg w) = stdout w"
  by (simp_all add: log_Print_def)

lemma fmt_Printf_fields [simp]:
  "files (fmt_Printf msg w) = files w" "trace (fmt_Printf msg w) = trace w"
  "logs (fmt_Printf msg w) = logs w"
  by (simp_all add: fmt_Printf_def)

text \<open>The calls of a run of WriteFile that returns.\<close>

lemma WriteFile_Returned_chain:
  assumes "WriteFile k data filepath perms owner w = Returned u w'"
  shows "\<exists>w1 w2 w3 w4.
           os_MkdirAll k (path_Dir filepath) 493 w = (True, w1)
         \<and> ioutil_WriteFile k (filepath @ ''.'' @ fileSuffix) data perms w1 = (True, w2)
         \<and> os_Chown k (filepath @ ''.'' @ fileSuffix) (GetOwnerID k owner) (GetGroupID k owner) w2 = (True, w3)
         \<and> os_Rename k (filepath @ ''.'' @ fileSuffix) filepath w3 = (True, w4)
         \<and> files w' = files w4 \<and> trace w' = trace w4"
  using assms
  by (auto simp: WriteFile_def CheckFullPath_def ChownFile_def StatsdPanic_def Let_def
           split: prod.splits if_splits outcome.splits)


lemma WriteFile_Returned_state:
  assumes ret: "WriteFile k data filepath perms owner w = Returned u w'"
  shows "\<exists>w3::world.
           trace w3 = trace w @ [SysMkdirAll (path_Dir filepath) 493,
                                 SysWriteFile (filepath @ ''.'' @ fileSuffix) data perms,
                                 SysChown (filepath @ ''.'' @ fileSuffix) (GetOwnerID k owner) (GetGroupID k owner)]
         \<and> files w3 (filepath @ ''.'' @ fileSuffix) =
             Some (File data
                    (case files w (filepath @ ''.'' @ fileSuffix) of
                       Some (File c m0 u0 g0) \<Rightarrow> m0
                     | _ \<Rightarrow> create_mode k perms)
                    (GetOwnerID k owner) (GetGroupID k owner))
         \<and> files w3 filepath = files w filepath
         \<and> trace w' = trace w3 @ [SysRename (filepath @ ''.'' @ fileSuffix) filepath]
         \<and> files w' = ((files w3)(filepath @ ''.'' @ fileSuffix := None))(filepath \<mapsto>
               File data
                    (case files w (filepath @ ''.'' @ fileSuffix) of
                       Some (File c m0 u0 g0) \<Rightarrow> m0
                     | _ \<Rightarrow> create_mode k perms)
                    (GetOwnerID k owner) (GetGroupID k owner))"
proof -
  let ?tmp = "filepath @ ''.'' @ fileSuffix"
  let ?d = "path_Dir filepath"
  let ?m = "case files w ?tmp of Some (File c m0 u0 g0) \<Rightarrow> m0 | _ \<Rightarrow> create_mode k perms"
  let ?oid = "GetOwnerID k owner"
  let ?gid = "GetGroupID k owner"
  from WriteFile_Returned_chain[OF ret] obtain w1 w2 w3 w4 where
    mk: "os_MkdirAll k ?d 493 w = (True, w1)" and
    wr: "ioutil_WriteFile k ?tmp data perms w1 = (True, w2)" and
    ch: "os_Chown k ?tmp ?oid ?gid w2 = (True, w3)" and
    rn: "os_Rename k ?tmp filepath w3 = (True, w4)" and
    fin: "files w' = files w4" "trace w' = trace w4"
    by blast
  have ne: "?tmp \<noteq> filepath" by (rule staging_neq_target)
  have f1: "files w1 = (if files w ?d = None then (files w)(?d \<mapsto> Dir) else files w)"
    using os_MkdirAll_files[OF mk] by simp
  have d1: "files w1 ?d = Some Dir" using mk by (rule os_MkdirAll_ok)
  from ioutil_WriteFile_ok[OF wr] have
    nd: "files w1 ?tmp \<noteq> Some Dir" and
    f2: "files w2 = (files w1)(?tmp \<mapsto>
           (case files w1 ?tmp of
              Some (File c m u g) \<Rightarrow> File data m u g
            | _ \<Rightarrow> File data (create_mode k perms) (euid k) (egid k)))"
    by blast+
  from nd d1 have td: "?tmp \<noteq> ?d" by auto
  with f1 have same: "files w1 ?tmp = files w ?tmp" by simp
  have "\<exists>u' g'. files w2 ?tmp = Some (File data ?m u' g')"
    unfolding f2 same using nd[unfolded same]
    by (auto split: option.splits node.splits)
  then obtain u' g' where t2: "files w2 ?tmp = Some (File data ?m u' g')" by blast
  have f3: "files w3 = (files w2)(?tmp \<mapsto> File data ?m ?oid ?gid)"
    using ch t2 by (rule os_Chown_ok)
  then have t3: "files w3 ?tmp = Some (File data ?m ?oid ?gid)" by simp
  from os_Rename_ok[OF rn t3] have
    tn: "files w3 filepath \<noteq> Some Dir" and
    f4: "files w4 = ((files w3)(?tmp := None))(filepath \<mapsto> File data ?m ?oid ?gid)"
    by blast+
  have t31: "files w3 filepath = files w1 filepath"
    using ne by (simp add: f3 f2)
  have "files w1 filepath = files w filepath"
  proof (cases "files w ?d = None \<and> ?d = filepath")
    case True
    with d1 have "files w1 filepath = Some Dir" by simp
    with tn t31 show ?thesis by simp
  next
    case False
    then show ?thesis by (auto simp: f1)
  qed
  with t31 have keep: "files w3 filepath = files w filepath" by simp
  have tr3: "trace w3 = trace w @ [SysMkdirAll ?d 493, SysWriteFile ?tmp data perms, SysChown ?tmp ?oid ?gid]"
    using os_MkdirAll_trace[OF mk] ioutil_WriteFile_trace[OF wr] os_Chown_trace[OF ch] by simp
  have tr4: "trace w' = trace w3 @ [SysRename ?tmp filepath]"
    using os_Rename_trace[OF rn] fin by simp
  have f5: "files w' = ((files w3)(?tmp := None))(filepath \<mapsto> File data ?m ?oid ?gid)"
    using f4 fin(1) by simp
  show ?thesis
    by (rule exI[of _ w3], intro conjI) (rule tr3 t3 keep tr4 f5)+
qed


text \<open>How a run of WriteFile that does not return ends: at the first call that fails.\<close>

lemma WriteFile_not_returned:
  assumes "\<not> returned (WriteFile k data filepath perms owner w)"
  shows "(\<exists>w1. os_MkdirAll k (path_Dir filepath) 493 w = (False, w1)
            \<and> files (final (WriteFile k data filepath perms owner w)) = files w1
            \<and> trace (final (WriteFile k data filepath perms owner w)) = trace w1)
       \<or> (\<exists>w1 w2. os_MkdirAll k (path_Dir filepath) 493 w = (True, w1)
            \<and> ioutil_WriteFile k (filepath @ ''.'' @ fileSuffix) data perms w1 = (False, w2)
            \<and> files (final (WriteFile k data filepath perms owner w)) = files w2
            \<and> trace (final (WriteFile k data filepath perms owner w)) = trace w2)
       \<or> (\<exists>w1 w2 w3. os_MkdirAll k (path_Dir filepath) 493 w = (True, w1)
            \<and> ioutil_WriteFile k (filepath @ ''.'' @ fileSuffix) data perms w1 = (True, w2)
            \<and> os_Chown k (filepath @ ''.'' @ fileSuffix) (GetOwnerID k owner) (GetGroupID k owner) w2 = (False, w3)
            \<and> files (final (WriteFile k data filepath perms owner w)) = files w3
            \<and> trace (final (WriteFile k data filepath perms owner w)) = trace w3)
       \<or> (\<exists>w1 w2 w3 w4. os_MkdirAll k (path_Dir filepath) 493 w = (True, w1)
            \<and> ioutil_WriteFile k (filepath @ ''.'' @ fileSuffix) data perms w1 = (True, w2)
            \<and> os_Chown k (filepath @ ''.'' @ fileSuffix) (GetOwnerID k owner) (GetGroupID k owner) w2 = (True, w3)
            \<and> os_Rename k (filepath @ ''.'' @ fileSuffix) filepath w3 = (False, w4)
            \<and> files (final (WriteFile k data filepath perms owner w)) = files w4
            \<and> trace (final (WriteFile k data filepath perms owner w)) = trace w4)"
  using assms
  by (auto simp: WriteFile_def CheckFullPath_def ChownFile_def StatsdPanic_def Let_def
           split: prod.splits if_splits outcome.splits)


lemma os_MkdirAll_keeps:
  "os_MkdirAll k d perm w = (ok, w1) \<Longrightarrow> files w p = Some n \<Longrightarrow> files w1 p = Some n"
  by (auto simp: os_MkdirAll_def issue_def Let_def split: if_splits option.splits node.splits)

lemma ioutil_WriteFile_other:
  "ioutil_WriteFile k p data perm w = (ok, w1) \<Longrightarrow> p' \<noteq> p \<Longrightarrow> files w1 p' = files w p'"
  by (auto simp: ioutil_WriteFile_def issue_def Let_def split: if_splits option.splits node.splits)

lemma os_Chown_other:
  "os_Chown k p oid gid w = (ok, w1) \<Longrightarrow> p' \<noteq> p \<Longrightarrow> files w1 p' = files w p'"
  by (auto simp: os_Chown_def issue_def Let_def split: if_splits option.splits node.splits)

lemma WriteFile_failed_target:
  assumes nr: "\<not> returned (WriteFile k data filepath perms owner w)"
    and ex: "files w filepath = Some n"
  shows "files (final (WriteFile k data filepath perms owner w)) filepath = Some n"
proof -
  let ?tmp = "filepath @ ''.'' @ fileSuffix"
  have ne: "filepath \<noteq> ?tmp" using staging_neq_target[of filepath] by blast
  from WriteFile_not_returned[OF nr] show ?thesis
  proof (elim disjE exE conjE)
    fix w1
    assume "os_MkdirAll k (path_Dir filepath) 493 w = (False, w1)"
      and "files (final (WriteFile k data filepath perms owner w)) = files w1"
    then show ?thesis using ex by (simp add: os_MkdirAll_keeps)
  next
    fix w1 w2
    assume "os_MkdirAll k (path_Dir filepath) 493 w = (True, w1)"
      and "ioutil_WriteFile k ?tmp data perms w1 = (False, w2)"
      and "files (final (WriteFile k data filepath perms owner w)) = files w2"
    then show ?thesis using ex ne
      by (simp add: os_MkdirAll_keeps ioutil_WriteFile_other)
  next
    fix w1 w2 w3
    assume "os_MkdirAll k (path_Dir filepath) 493 w = (True, w1)"
      and "ioutil_WriteFile k ?tmp data perms w1 = (True, w2)"
      and "os_Chown k ?tmp (GetOwnerID k owner) (GetGroupID k owner) w2 = (False, w3)"
      and "files (final (WriteFile k data filepath perms owner w)) = files w3"
    then show ?thesis using ex ne
      by (simp add: os_MkdirAll_keeps ioutil_WriteFile_other os_Chown_other)
  next
    fix w1 w2 w3 w4
    assume "os_MkdirAll k (path_Dir filepath) 493 w = (True, w1)"
      and "ioutil_WriteFile k ?tmp data perms w1 = (True, w2)"
      and "os_Chown k ?tmp (GetOwnerID k owner) (GetGroupID k owner) w2 = (True, w3)"
      and "os_Rename k ?tmp filepath w3 = (False, w4)"
      and "files (final (WriteFile k data filepath perms owner w)) = files w4"
    then show ?thesis using ex ne
      by (simp add: os_MkdirAll_keeps ioutil_WriteFile_other os_Chown_other os_Rename_fail)
  qed
qed

lemma os_MkdirAll_absent:
  "os_MkdirAll k d perm w = (ok, w1) \<Longrightarrow> files w p = None \<Longrightarrow> p \<noteq> d \<Longrightarrow> files w1 p = None"
  by (auto simp: os_MkdirAll_def issue_def Let_def split: if_splits option.splits node.splits)

lemma WriteFile_failed_absent:
  assumes nr: "\<not> returned (WriteFile k data filepath perms owner w)"
    and ab: "files w filepath = None" and nd: "filepath \<noteq> path_Dir filepath"
  shows "files (final (WriteFile k data filepath perms owner w)) filepath = None"
proof -
  let ?tmp = "filepath @ ''.'' @ fileSuffix"
  have ne: "filepath \<noteq> ?tmp" using staging_neq_target[of filepath] by blast
  from WriteFile_not_returned[OF nr] show ?thesis
  proof (elim disjE exE conjE)
    fix w1
    assume "os_MkdirAll k (path_Dir filepath) 493 w = (False, w1)"
      and "files (final (WriteFile k data filepath perms owner w)) = files w1"
    then show ?thesis using ab nd by (simp add: os_MkdirAll_absent)
  next
    fix w1 w2
    assume "os_MkdirAll k (path_Dir filepath) 493 w = (True, w1)"
      and "ioutil_WriteFile k ?tmp data perms w1 = (False, w2)"
      and "files (final (WriteFile k data filepath perms owner w)) = files w2"
    then show ?thesis using ab nd ne
      by (simp add: os_MkdirAll_absent ioutil_WriteFile_other)
  next
    fix w1 w2 w3
    assume "os_MkdirAll k (path_Dir filepath) 493 w = (True, w1)"
      and "ioutil_WriteFile k ?tmp data perms w1 = (True, w2)"
      and "os_Chown k ?tmp (GetOwnerID k owner) (GetGroupID k owner) w2 = (False, w3)"
      and "files (final (WriteFile k data filepath perms owner w)) = files w3"
    then show ?thesis using ab nd ne
      by (simp add: os_MkdirAll_absent ioutil_WriteFile_other os_Chown_other)
  next
    fix w1 w2 w3 w4
    assume "os_MkdirAll k (path_Dir filepath) 493 w = (True, w1)"
      and "ioutil_WriteFile k ?tmp data perms w1 = (True, w2)"
      and "os_Chown k ?tmp (GetOwnerID k owner) (GetGroupID k owner) w2 = (True, w3)"
      and "os_Rename k ?tmp filepath w3 = (False, w4)"
      and "files (final (WriteFile k data filepath perms owner w)) = files w4"
    then show ?thesis using ab nd ne
      by (simp add: os_MkdirAll_absent ioutil_WriteFile_other os_Chown_other os_Rename_fail)
  qed
qed

section \<open>Writing a file: stage, then rename\<close>

lemma path_Dir_hosts: "path_Dir ''/etc/hosts.conf'' = ''/etc''"
  by (simp add: path_Dir_def path_Split_def path_Clean_def clean_elem_def Let_def)

lemma returned_final: "returned (r :: unit outcome) \<Longrightarrow> r = Returned () (final r)"
  by (cases r) simp_all

lemmas run_defs =
  WriteFile_def CheckFullPath_def ChownFile_def StatsdPanic_def
  os_MkdirAll_def ioutil_WriteFile_def os_Chown_def os_Rename_def issue_def
  fileSuffix_def Let_def

text \<open>When no call is refused and no directory or regular file is in the way, WriteFile
  returns.\<close>

lemma WriteFile_returns:
  assumes "\<not> refuses k (SysMkdirAll (path_Dir filepath) 493)"
    and "\<not> refuses k (SysWriteFile (filepath @ ''.kvexpress'') data perms)"
    and "\<not> refuses k (SysChown (filepath @ ''.kvexpress'') (GetOwnerID k owner) (GetGroupID k owner))"
    and "\<not> refuses k (SysRename (filepath @ ''.kvexpress'') filepath)"
    and "files w (path_Dir filepath) = None \<or> files w (path_Dir filepath) = Some Dir"
    and "files w (filepath @ ''.kvexpress'') \<noteq> Some Dir"
    and "files w filepath \<noteq> Some Dir"
    and "path_Dir filepath \<noteq> filepath @ ''.kvexpress''"
    and "path_Dir filepath \<noteq> filepath"
  shows "returned (WriteFile k data filepath perms owner w)"
  using assms
  by (auto simp: run_defs split: option.splits node.splits)

text \<open>
  C1 does not hold of \<open>WriteFile\<close>: the target does not always get the requested permission
  mode. \<open>WriteFile\<close> passes the mode to \<open>ioutil.WriteFile\<close> only, which uses it when it
  creates the staging file and leaves the permissions of a staging file that exists as they
  are; nothing sets the mode afterwards. With a staging file of mode 0600 (384) left by an
  earlier run, a commit that requests 0640 (416) returns, logs the permissions 640, and the
  target holds the content with mode 0600. Where there is no staging file, the same call gives
  the target the mode 0640.
\<close>

theorem WriteFile_keeps_stale_staging_mode:
  "files world_stale ''/etc/hosts.conf.kvexpress'' = Some (File ''conf'' 384 0 0)
   \<and> returned (WriteFile env0 ''configuration=1'' ''/etc/hosts.conf'' 416 ''deploy'' world_stale)
   \<and> files (final (WriteFile env0 ''configuration=1'' ''/etc/hosts.conf'' 416 ''deploy'' world_stale))
        ''/etc/hosts.conf'' = Some (File ''configuration=1'' 384 1000 1000)
   \<and> logs (final (WriteFile env0 ''configuration=1'' ''/etc/hosts.conf'' 416 ''deploy'' world_stale)) =
        [(Sprintf (''file_wrote='true' location='%s' permissions='%s'' @ q)
            [S ''/etc/hosts.conf'', FormatInt 416 8], ''debug''),
         (Sprintf (''file_chown='%t' location='%s' owner='%d' group='%d'' @ q)
            [T True, S ''/etc/hosts.conf'', D 1000, D 1000], ''debug'')]
   \<and> files world0 ''/etc/hosts.conf.kvexpress'' = None
   \<and> files (final (WriteFile env0 ''configuration=1'' ''/etc/hosts.conf'' 416 ''deploy'' world0))
        ''/etc/hosts.conf'' = Some (File ''configuration=1'' 416 1000 1000)"
  by (simp add: run_defs Log_def path_Dir_hosts env0_def world_stale_def world0_def)

section \<open>Reading a file\<close>

text \<open>
  C9. For every path, \<open>ReadFile\<close> returns the empty string whenever the underlying read
  fails: when the kernel refuses it, and when there is no file at the path. There it returns
  what it returns for a file with empty content, so the caller cannot tell a missing file, an
  unreadable file and an empty file apart.
\<close>

theorem ReadFile_empty_on_error:
  "(ioutil_ReadFile k filepath w = None \<longrightarrow> ReadFile k filepath w = [])
   \<and> (refuses k (SysReadFile filepath) \<longrightarrow> ReadFile k filepath w = [])
   \<and> (files w filepath = None \<longrightarrow>
        ReadFile k filepath w = [] \<and>
        ReadFile k filepath w =
          ReadFile k filepath (w\<lparr>files := (files w)(filepath \<mapsto> File [] m u g)\<rparr>))"
  by (simp add: ReadFile_def ioutil_ReadFile_def)

text \<open>The theorem where \<open>/etc/hosts.conf\<close> does not exist.\<close>

theorem ReadFile_empty_on_error_witness:
  "ioutil_ReadFile env0 ''/etc/hosts.conf'' world0 = None
   \<and> files world0 ''/etc/hosts.conf'' = None
   \<and> ReadFile env0 ''/etc/hosts.conf'' world0 = []
   \<and> ReadFile env0 ''/etc/hosts.conf''
        (world0\<lparr>files := (files world0)(''/etc/hosts.conf'' \<mapsto> File [] 416 0 0)\<rparr>) = []"
proof -
  have n: "files world0 ''/etc/hosts.conf'' = None"
    by (simp add: world0_def)
  then have r: "ioutil_ReadFile env0 ''/etc/hosts.conf'' world0 = None"
    by (simp add: ioutil_ReadFile_def)
  from ReadFile_empty_on_error[of env0 "''/etc/hosts.conf''" world0 416 0 0] n r
  show ?thesis by metis
qed

section \<open>The check before writing\<close>

text \<open>
  What \<open>CheckFiletoWrite\<close> does where it is called: when the file is a regular file that can
  be opened and read and the checksum of its content equals the given checksum, the process
  exits with status 0 there, without any call that changes the file system. So it does after
  \<open>WriteFile\<close> has written a content to the file, for the checksum of that content.
\<close>

lemma CheckFiletoWrite_same_checksum_stops:
  "(files w filename = Some (File c m u g) \<longrightarrow>
      \<not> refuses k (SysOpen filename) \<longrightarrow> \<not> refuses k (SysReadFile filename) \<longrightarrow>
      ComputeChecksum k c = checksum \<longrightarrow>
        exited (CheckFiletoWrite k filename checksum w) = Some 0
      \<and> files (final (CheckFiletoWrite k filename checksum w)) = files w
      \<and> trace (final (CheckFiletoWrite k filename checksum w)) = trace w)
   \<and> (WriteFile k data filename perms owner w = Returned x wa \<longrightarrow>
      \<not> refuses k (SysOpen filename) \<longrightarrow> \<not> refuses k (SysReadFile filename) \<longrightarrow>
        exited (CheckFiletoWrite k filename (ComputeChecksum k data) wa) = Some 0
      \<and> files (final (CheckFiletoWrite k filename (ComputeChecksum k data) wa)) = files wa
      \<and> trace (final (CheckFiletoWrite k filename (ComputeChecksum k data) wa)) = trace wa)"
proof -
  have a: "CheckFiletoWrite k filename checksum w =
        Exited 0 (Log (Sprintf (q @ ''%s' has the same checksum. Stopping.'') [S filename]) ''info'' w)"
    if "files w filename = Some (File c m u g)" "\<not> refuses k (SysOpen filename)"
       "\<not> refuses k (SysReadFile filename)" "ComputeChecksum k c = checksum"
    for w c m u g checksum
    using that by (simp add: CheckFiletoWrite_def os_Open_def ioutil_ReadFile_def)
  have b: "CheckFiletoWrite k filename (ComputeChecksum k data) wa =
        Exited 0 (Log (Sprintf (q @ ''%s' has the same checksum. Stopping.'') [S filename]) ''info'' wa)"
    if ret: "WriteFile k data filename perms owner w = Returned x wa"
      and ok: "\<not> refuses k (SysOpen filename)" "\<not> refuses k (SysReadFile filename)"
  proof -
    from WriteFile_Returned_state[OF ret] obtain mm where
      "files wa filename = Some (File data mm (GetOwnerID k owner) (GetGroupID k owner))"
      by auto
    then show ?thesis using ok by (rule a) simp
  qed
  from a b show ?thesis by simp
qed

section \<open>The file of the last content\<close>

lemma path_Dir_last: "path_Dir ''/etc/hosts.conf.last'' = ''/etc''"
  by (simp add: path_Dir_def path_Split_def path_Clean_def clean_elem_def Let_def)

text \<open>
  C6, as stated, fails: \<open>CheckLastFile\<close> writes the \<open>.last\<close> file when no content has been
  committed, and what it writes is not a committed content. With no target and no \<open>.last\<close>
  file, it creates \<open>/etc/hosts.conf.last\<close> holding the text \<open>This is a blank file.\<close> while the
  target still does not exist.
\<close>

theorem CheckLastFile_placeholder_counterexample:
  "fst (LastFilename ''/etc/hosts.conf'' world0) = ''/etc/hosts.conf.last''
   \<and> files world0 ''/etc/hosts.conf'' = None
   \<and> returned (CheckLastFile env0 ''/etc/hosts.conf.last'' 416 ''deploy'' world0)
   \<and> files (final (CheckLastFile env0 ''/etc/hosts.conf.last'' 416 ''deploy'' world0))
        ''/etc/hosts.conf.last'' = Some (File ''This is a blank file.\<newline>'' 416 1000 1000)
   \<and> files (final (CheckLastFile env0 ''/etc/hosts.conf.last'' 416 ''deploy'' world0))
        ''/etc/hosts.conf'' = None"
  by (simp add: CheckLastFile_def os_Stat_def LastFilename_def path_Base_def path_Join_def
        path_Split_def path_Clean_def clean_elem_def run_defs path_Dir_hosts path_Dir_last
        env0_def world0_def)

text \<open>
  C6 (amended). \<open>CheckLastFile\<close> only makes sure that the \<open>.last\<close> file exists. When
  \<open>os.Stat\<close> finds the file it does nothing. When \<open>os.Stat\<close> fails and the function returns,
  it has written the text \<open>This is a blank file.\<close> and a newline to the file through
  \<open>WriteFile\<close> (staging file, owner, rename), whether or not anything has been committed to
  the target.
\<close>

theorem CheckLastFile_creates_placeholder:
  "(os_Stat k file w = Some n \<longrightarrow> CheckLastFile k file perms owner w = Returned () w)
   \<and> (os_Stat k file w = None \<longrightarrow> CheckLastFile k file perms owner w = Returned u w' \<longrightarrow>
        (\<exists>m. files w' file =
                Some (File ''This is a blank file.\<newline>'' m (GetOwnerID k owner) (GetGroupID k owner)))
        \<and> trace w' = trace w @
             [SysMkdirAll (path_Dir file) 493,
              SysWriteFile (file @ ''.kvexpress'') ''This is a blank file.\<newline>'' perms,
              SysChown (file @ ''.kvexpress'') (GetOwnerID k owner) (GetGroupID k owner),
              SysRename (file @ ''.kvexpress'') file])"
proof -
  have a: "CheckLastFile k file perms owner w = Returned () w" if "os_Stat k file w = Some n"
    using that by (simp add: CheckLastFile_def)
  have b: "(\<exists>m. files w' file =
                Some (File ''This is a blank file.\<newline>'' m (GetOwnerID k owner) (GetGroupID k owner)))
        \<and> trace w' = trace w @
             [SysMkdirAll (path_Dir file) 493,
              SysWriteFile (file @ ''.kvexpress'') ''This is a blank file.\<newline>'' perms,
              SysChown (file @ ''.kvexpress'') (GetOwnerID k owner) (GetGroupID k owner),
              SysRename (file @ ''.kvexpress'') file]"
    if st: "os_Stat k file w = None" and ret: "CheckLastFile k file perms owner w = Returned u w'"
  proof -
    let ?w0 = "Log (Sprintf (''file='last' file='%s' does_not_exist='true'' @ q) [S file]) ''debug'' w"
    from st ret have "WriteFile k ''This is a blank file.\<newline>'' file perms owner ?w0 = Returned u w'"
      by (simp add: CheckLastFile_def)
    from WriteFile_Returned_state[OF this] show ?thesis
      by (auto simp: fileSuffix_def)
  qed
  from a b show ?thesis by blast
qed

text \<open>The theorem for a file that exists and for a \<open>.last\<close> file that does not.\<close>

theorem CheckLastFile_creates_placeholder_witness:
  "os_Stat env0 ''/etc/hosts.conf'' world_locked = Some (File ''configuration=0'' 416 1000 1000)
   \<and> CheckLastFile env0 ''/etc/hosts.conf'' 416 ''deploy'' world_locked = Returned () world_locked
   \<and> os_Stat env0 ''/etc/hosts.conf.last'' world0 = None
   \<and> returned (CheckLastFile env0 ''/etc/hosts.conf.last'' 416 ''deploy'' world0)
   \<and> (\<exists>m. files (final (CheckLastFile env0 ''/etc/hosts.conf.last'' 416 ''deploy'' world0))
              ''/etc/hosts.conf.last'' = Some (File ''This is a blank file.\<newline>'' m 1000 1000))
   \<and> trace (final (CheckLastFile env0 ''/etc/hosts.conf.last'' 416 ''deploy'' world0)) =
       [SysMkdirAll ''/etc'' 493,
        SysWriteFile ''/etc/hosts.conf.last.kvexpress'' ''This is a blank file.\<newline>'' 416,
        SysChown ''/etc/hosts.conf.last.kvexpress'' 1000 1000,
        SysRename ''/etc/hosts.conf.last.kvexpress'' ''/etc/hosts.conf.last'']"
proof -
  let ?run = "CheckLastFile env0 ''/etc/hosts.conf.last'' 416 ''deploy'' world0"
  have s1: "os_Stat env0 ''/etc/hosts.conf'' world_locked = Some (File ''configuration=0'' 416 1000 1000)"
    by (simp add: os_Stat_def env0_def world_locked_def)
  have s2: "os_Stat env0 ''/etc/hosts.conf.last'' world0 = None"
    by (simp add: os_Stat_def env0_def world0_def)
  have ret: "returned ?run"
    by (simp add: CheckLastFile_def os_Stat_def run_defs path_Dir_last env0_def world0_def)
  then have eq: "?run = Returned () (final ?run)"
    by (rule returned_final)
  have e: "GetOwnerID env0 ''deploy'' = 1000" "GetGroupID env0 ''deploy'' = 1000" "trace world0 = []"
    by (simp_all add: env0_def world0_def)
  from CheckLastFile_creates_placeholder
         [of env0 "''/etc/hosts.conf''" world_locked "File ''configuration=0'' 416 1000 1000"
             416 "''deploy''"]
       s1
  have a: "CheckLastFile env0 ''/etc/hosts.conf'' 416 ''deploy'' world_locked = Returned () world_locked"
    by blast
  from CheckLastFile_creates_placeholder
         [of env0 "''/etc/hosts.conf.last''" world0 _ 416 "''deploy''" "()" "final ?run"]
       s2 eq
  have b: "(\<exists>m. files (final ?run) ''/etc/hosts.conf.last'' =
                 Some (File ''This is a blank file.\<newline>'' m 1000 1000))
        \<and> trace (final ?run) =
       [SysMkdirAll ''/etc'' 493,
        SysWriteFile ''/etc/hosts.conf.last.kvexpress'' ''This is a blank file.\<newline>'' 416,
        SysChown ''/etc/hosts.conf.last.kvexpress'' 1000 1000,
        SysRename ''/etc/hosts.conf.last.kvexpress'' ''/etc/hosts.conf.last'']"
    by (simp add: e path_Dir_last)
  from s1 a s2 ret b show ?thesis by blast
qed

section \<open>Lock and unlock\<close>









section \<open>The out command: when the file is written\<close>

lemmas out_defs =
  outRun_def checkOutFlags_def kvexpress_WriteFile_def RunCommand_def
  LengthCheck_def ChecksumCompare_def

text \<open>
  C4. When the content fetched from the store fails the length check (it is shorter than
  the minimum length) or the checksum check (its checksum is not the one fetched with it),
  \<open>outRun\<close> changes no file: a target that existed
  holds what it held, one that did not exist still does not. With the key and the file given
  it returns (the process does not end in it) and issues no call that changes the file
  system; the only call it may issue is the start of the configured command. Without them it
  exits with status 1 before any call. So the file is written only when both checks pass.
\<close>

theorem outRun_rejects_without_writing:
  "\<not> LengthCheck (Get k (KeyDataPath k (KeyOutLocation c) (PrefixLocation c)) (ConsulServer c) (Token c))
        (MinFileLength c)
   \<or> \<not> ChecksumCompare k
          (Get k (KeyDataPath k (KeyOutLocation c) (PrefixLocation c)) (ConsulServer c) (Token c))
          (Get k (KeyChecksumPath k (KeyOutLocation c) (PrefixLocation c)) (ConsulServer c) (Token c)) \<longrightarrow>
     files (final (outRun k c w)) = files w
     \<and> (KeyOutLocation c \<noteq> [] \<and> FiletoWrite c \<noteq> [] \<longrightarrow>
          returned (outRun k c w)
          \<and> trace (final (outRun k c w)) =
              trace w @ (if PostExec c \<noteq> [] then [SysExec (PostExec c)] else []))
     \<and> (KeyOutLocation c = [] \<or> FiletoWrite c = [] \<longrightarrow>
          exited (outRun k c w) = Some 1 \<and> trace (final (outRun k c w)) = trace w)"
  by (auto simp: outRun_def checkOutFlags_def RunCommand_def issue_def Let_def)

text \<open>The theorem for a content of 15 bytes and a minimum length of 100.\<close>

theorem outRun_rejects_without_writing_witness:
  "KeyOutLocation flags_short \<noteq> [] \<and> FiletoWrite flags_short \<noteq> []
   \<and> int (length (Get env0 (KeyDataPath env0 (KeyOutLocation flags_short) (PrefixLocation flags_short))
                         (ConsulServer flags_short) (Token flags_short))) < MinFileLength flags_short
   \<and> returned (outRun env0 flags_short world0)
   \<and> files (final (outRun env0 flags_short world0)) = files world0
   \<and> trace (final (outRun env0 flags_short world0)) = [SysExec ''/usr/local/bin/reload'']"
proof -
  have e: "KeyOutLocation flags_short \<noteq> []" "FiletoWrite flags_short \<noteq> []"
    "int (length (Get env0 (KeyDataPath env0 (KeyOutLocation flags_short) (PrefixLocation flags_short))
                         (ConsulServer flags_short) (Token flags_short))) < MinFileLength flags_short"
    "PostExec flags_short = ''/usr/local/bin/reload''" "trace world0 = []"
    by (simp_all add: flags_short_def flags0_def env0_def world0_def)
  from e(3) have l:
    "\<not> LengthCheck (Get env0 (KeyDataPath env0 (KeyOutLocation flags_short) (PrefixLocation flags_short))
                         (ConsulServer flags_short) (Token flags_short)) (MinFileLength flags_short)"
    by (simp add: LengthCheck_def)
  from outRun_rejects_without_writing[of env0 flags_short world0] e l
  show ?thesis by simp
qed

text \<open>
  C2 does not hold of \<open>outRun\<close>: it never looks at the marker. With \<open>/etc/hosts.conf.locked\<close>
  present, a minimum length of 10 and a content of eleven lines and 44 bytes in the store with
  its checksum, \<open>outRun\<close> replaces the content of \<open>/etc/hosts.conf\<close>.
\<close>

theorem outRun_writes_locked_target:
  "files world_locked (LockFilePath (FiletoWrite flags0)) = Some (File ''locked'' 416 1000 1000)
   \<and> files world_locked (FiletoWrite flags0) = Some (File ''configuration=0'' 416 1000 1000)
   \<and> MinFileLength flags0 = 10
   \<and> int (length hosts11) = 44
   \<and> int (length (filter (\<lambda>c. c = nl) hosts11)) = 11
   \<and> returned (outRun env_lines flags0 world_locked)
   \<and> files (final (outRun env_lines flags0 world_locked)) (FiletoWrite flags0) =
       Some (File hosts11 416 1000 1000)
   \<and> trace (final (outRun env_lines flags0 world_locked)) =
       [SysMkdirAll ''/etc'' 493,
        SysWriteFile ''/etc/hosts.conf.kvexpress'' hosts11 416,
        SysChown ''/etc/hosts.conf.kvexpress'' 1000 1000,
        SysRename ''/etc/hosts.conf.kvexpress'' ''/etc/hosts.conf'']"
  by (simp add: out_defs run_defs LockFilePath_def path_Dir_hosts env_lines_def env0_def flags0_def
        world_locked_def hosts11_def)

text \<open>
  C5 does not hold of \<open>outRun\<close>: the configured command is started after the \<open>if\<close> that
  writes the file, whether the file was written or not. With a content that is too short and
  a command configured, nothing is written and the command is started.
\<close>

theorem outRun_runs_command_after_rejection:
  "\<not> LengthCheck (Get env0 (KeyDataPath env0 (KeyOutLocation flags_short) (PrefixLocation flags_short))
                     (ConsulServer flags_short) (Token flags_short)) (MinFileLength flags_short)
   \<and> PostExec flags_short = ''/usr/local/bin/reload''
   \<and> returned (outRun env0 flags_short world0)
   \<and> files (final (outRun env0 flags_short world0)) = files world0
   \<and> trace (final (outRun env0 flags_short world0)) = [SysExec ''/usr/local/bin/reload'']"
  by (simp add: out_defs issue_def env0_def flags_short_def flags0_def world0_def)

lemma CheckFullFilename_rejects_relative:
  "\<not> strings_HasPrefix file ''/'' \<Longrightarrow>
     exited (CheckFullFilename file w) = Some 1
     \<and> files (final (CheckFullFilename file w)) = files w
     \<and> trace (final (CheckFullFilename file w)) = trace w"
  by (simp add: CheckFullFilename_def)

lemma path_Dir_relative: "path_Dir ''hosts.conf'' = ''.''"
  by (simp add: path_Dir_def path_Split_def path_Clean_def)

text \<open>
  C8 does not hold of \<open>outRun\<close>: \<open>checkOutFlags\<close> only rejects an empty path, and
  \<open>CheckFullFilename\<close>, which exits with status 1 on this path, is not called. With the
  relative path \<open>hosts.conf\<close>, a minimum length of 10 and a content of eleven lines and 44
  bytes in the store with its checksum, \<open>outRun\<close> writes the file.
\<close>

theorem outRun_writes_relative_path:
  "\<not> strings_HasPrefix (FiletoWrite flags_relative) ''/''
   \<and> exited (CheckFullFilename (FiletoWrite flags_relative) world0) = Some 1
   \<and> MinFileLength flags_relative = 10
   \<and> int (length hosts11) = 44
   \<and> int (length (filter (\<lambda>c. c = nl) hosts11)) = 11
   \<and> returned (outRun env_lines flags_relative world0)
   \<and> files (final (outRun env_lines flags_relative world0)) ''hosts.conf'' =
       Some (File hosts11 416 1000 1000)
   \<and> trace (final (outRun env_lines flags_relative world0)) =
       [SysMkdirAll ''.'' 493,
        SysWriteFile ''hosts.conf.kvexpress'' hosts11 416,
        SysChown ''hosts.conf.kvexpress'' 1000 1000,
        SysRename ''hosts.conf.kvexpress'' ''hosts.conf'']"
  by (simp add: out_defs run_defs CheckFullFilename_def strings_HasPrefix_def path_Dir_relative
        env_lines_def env0_def flags_relative_def flags0_def world0_def hosts11_def)

text \<open>
  C3 does not hold of \<open>outRun\<close>: it does not compare the content with the target and never
  calls \<open>CheckFiletoWrite\<close>. With no target, a minimum length of 10 and a content of eleven
  lines and 44 bytes in the store with its checksum, a first \<open>outRun\<close> writes the target;
  the checksum of the target's content is then the declared one, and \<open>CheckFiletoWrite\<close>
  would exit with status 0 there; a second \<open>outRun\<close> returns instead and issues the four
  calls again: it writes the staging file and renames it over the target.
\<close>

theorem outRun_twice_writes_twice:
  "files world0 ''/etc/hosts.conf'' = None
   \<and> MinFileLength flags0 = 10
   \<and> int (length hosts11) = 44
   \<and> int (length (filter (\<lambda>c. c = nl) hosts11)) = 11
   \<and> returned (outRun env_lines flags0 world0)
   \<and> files (final (outRun env_lines flags0 world0)) ''/etc/hosts.conf'' =
       Some (File hosts11 416 1000 1000)
   \<and> ComputeChecksum env_lines hosts11 =
       Get env_lines (KeyChecksumPath env_lines (KeyOutLocation flags0) (PrefixLocation flags0))
         (ConsulServer flags0) (Token flags0)
   \<and> exited (CheckFiletoWrite env_lines ''/etc/hosts.conf'' (ComputeChecksum env_lines hosts11)
               (final (outRun env_lines flags0 world0))) = Some 0
   \<and> returned (outRun env_lines flags0 (final (outRun env_lines flags0 world0)))
   \<and> exited (outRun env_lines flags0 (final (outRun env_lines flags0 world0))) = None
   \<and> trace (final (outRun env_lines flags0 (final (outRun env_lines flags0 world0)))) =
       trace (final (outRun env_lines flags0 world0)) @
       [SysMkdirAll ''/etc'' 493,
        SysWriteFile ''/etc/hosts.conf.kvexpress'' hosts11 416,
        SysChown ''/etc/hosts.conf.kvexpress'' 1000 1000,
        SysRename ''/etc/hosts.conf.kvexpress'' ''/etc/hosts.conf'']"
  by (simp add: out_defs run_defs CheckFiletoWrite_def os_Open_def ioutil_ReadFile_def Log_def
        log_Print_def path_Dir_hosts env_lines_def env0_def flags0_def world0_def hosts11_def)

end
